theory Spec2Isabelle
  imports Complex_Main
begin

section \<open>Data model\<close>

text \<open>
  The physics and collision core of the hexagon bounce simulation
  (\<^verbatim>\<open>utils/physics.ts\<close> and \<^verbatim>\<open>utils/collision.ts\<close>).
  A TypeScript \<^verbatim>\<open>number\<close> is modelled as a real number with exact arithmetic;
  rounding, NaN and overflow of IEEE doubles are outside the model. The one infinite
  value the code uses, the initial \<^verbatim>\<open>minDistance = Infinity\<close>, is kept as a
  constructor of the type \<open>number\<close> below. Every division of the modelled code is
  guarded by the source against a zero divisor, so the HOL convention \<open>a / 0 = 0\<close>
  is never reached.
\<close>

record Vector2D =
  x :: real
  y :: real

record Ball =
  position :: Vector2D
  velocity :: Vector2D
  radius :: real

type_synonym HexagonVertex = Vector2D

record LineSegment =
  start :: Vector2D
  endp :: Vector2D

datatype number = Num real | Infinity

text \<open>\<^verbatim>\<open>d < m\<close> for a finite \<open>d\<close> and \<^verbatim>\<open>m <= r\<close> for a finite \<open>r\<close>.\<close>

fun num_less :: "real \<Rightarrow> number \<Rightarrow> bool" where
  "num_less d Infinity = True"
| "num_less d (Num m) = (d < m)"

fun num_le :: "number \<Rightarrow> real \<Rightarrow> bool" where
  "num_le Infinity r = False"
| "num_le (Num m) r = (m \<le> r)"

record CollisionResult =
  hasCollision :: bool
  distance :: number
  wallStart :: Vector2D
  wallEnd :: Vector2D

section \<open>Physics constants\<close>

definition GRAVITY :: real where "GRAVITY = 500"
definition FRICTION :: real where "FRICTION = 98 / 100"
definition BOUNCE_DAMPING :: real where "BOUNCE_DAMPING = 85 / 100"
definition MIN_VELOCITY :: real where "MIN_VELOCITY = 1 / 10"

section \<open>Vector operations (class Vector)\<close>

definition Vector_create :: "real \<Rightarrow> real \<Rightarrow> Vector2D" where
  "Vector_create a b = \<lparr>x = a, y = b\<rparr>"

definition Vector_add :: "Vector2D \<Rightarrow> Vector2D \<Rightarrow> Vector2D" where
  "Vector_add a b = \<lparr>x = x a + x b, y = y a + y b\<rparr>"

definition Vector_subtract :: "Vector2D \<Rightarrow> Vector2D \<Rightarrow> Vector2D" where
  "Vector_subtract a b = \<lparr>x = x a - x b, y = y a - y b\<rparr>"

definition Vector_multiply :: "Vector2D \<Rightarrow> real \<Rightarrow> Vector2D" where
  "Vector_multiply v scalar = \<lparr>x = x v * scalar, y = y v * scalar\<rparr>"

definition Vector_dot :: "Vector2D \<Rightarrow> Vector2D \<Rightarrow> real" where
  "Vector_dot a b = x a * x b + y a * y b"

definition Vector_magnitude :: "Vector2D \<Rightarrow> real" where
  "Vector_magnitude v = sqrt (x v * x v + y v * y v)"

definition Vector_normalize :: "Vector2D \<Rightarrow> Vector2D" where
  "Vector_normalize v =
     (let mag = Vector_magnitude v
      in if mag = 0 then \<lparr>x = 0, y = 0\<rparr> else \<lparr>x = x v / mag, y = y v / mag\<rparr>)"

definition Vector_rotate :: "Vector2D \<Rightarrow> real \<Rightarrow> Vector2D" where
  "Vector_rotate v angle =
     (let c = cos angle; s = sin angle
      in \<lparr>x = x v * c - y v * s, y = x v * s + y v * c\<rparr>)"

definition Vector_reflect :: "Vector2D \<Rightarrow> Vector2D \<Rightarrow> Vector2D" where
  "Vector_reflect incident normal =
     (let normalizedNormal = Vector_normalize normal;
          dot = Vector_dot incident normalizedNormal
      in Vector_subtract incident (Vector_multiply normalizedNormal (2 * dot)))"

section \<open>Physics integrator and collision resolver\<close>

definition updateBallPhysics :: "Ball \<Rightarrow> real \<Rightarrow> Ball" where
  "updateBallPhysics ball deltaTime =
     (let gravity = Vector_create 0 GRAVITY;
          gravityForce = Vector_multiply gravity deltaTime;
          newVelocity = Vector_add (velocity ball) gravityForce;
          newVelocity = Vector_multiply newVelocity FRICTION;
          newVelocity = (if Vector_magnitude newVelocity < MIN_VELOCITY
                         then \<lparr>x = 0, y = 0\<rparr> else newVelocity);
          velocityDelta = Vector_multiply newVelocity deltaTime;
          newPosition = Vector_add (position ball) velocityDelta
      in ball\<lparr>position := newPosition, velocity := newVelocity\<rparr>)"

text \<open>
  Lines 138 to 153 of \<^verbatim>\<open>handleWallCollision\<close>: the unit perpendicular of the wall,
  flipped in place when it points away from the ball centre.
\<close>

definition orientedWallNormal :: "Ball \<Rightarrow> Vector2D \<Rightarrow> Vector2D \<Rightarrow> Vector2D" where
  "orientedWallNormal ball wStart wEnd =
     (let wallVector = Vector_subtract wEnd wStart;
          wallNormal = Vector_normalize \<lparr>x = - y wallVector, y = x wallVector\<rparr>;
          ballCenter = position ball;
          wallMidpoint = Vector_multiply (Vector_add wStart wEnd) (1 / 2);
          ballDirection = Vector_subtract ballCenter wallMidpoint
      in if Vector_dot wallNormal ballDirection < 0
         then wallNormal\<lparr>x := - x wallNormal, y := - y wallNormal\<rparr>
         else wallNormal)"

definition handleWallCollision :: "Ball \<Rightarrow> Vector2D \<Rightarrow> Vector2D \<Rightarrow> real \<Rightarrow> Ball" where
  "handleWallCollision ball wStart wEnd wallDistance =
     (if wallDistance > radius ball then ball
      else
        let wallNormal = orientedWallNormal ball wStart wEnd;
            reflectedVelocity = Vector_reflect (velocity ball) wallNormal;
            dampedVelocity = Vector_multiply reflectedVelocity BOUNCE_DAMPING;
            penetration = radius ball - wallDistance;
            correctionVector = Vector_multiply wallNormal penetration;
            correctedPosition = Vector_add (position ball) correctionVector
        in ball\<lparr>position := correctedPosition, velocity := dampedVelocity\<rparr>)"

definition createBall :: "real \<Rightarrow> real \<Rightarrow> real \<Rightarrow> Ball" where
  "createBall a b r = \<lparr>position = \<lparr>x = a, y = b\<rparr>, velocity = \<lparr>x = 0, y = 0\<rparr>, radius = r\<rparr>"

section \<open>Hexagon geometry and collision detection\<close>

definition generateHexagonVertices :: "real \<Rightarrow> real \<Rightarrow> real \<Rightarrow> real \<Rightarrow> HexagonVertex list" where
  "generateHexagonVertices centerX centerY hexRadius rotation =
     map (\<lambda>i. let angle = (pi / 3) * real i + rotation
               in \<lparr>x = centerX + hexRadius * cos angle,
                   y = centerY + hexRadius * sin angle\<rparr>) [0..<6]"

definition getHexagonEdges :: "HexagonVertex list \<Rightarrow> LineSegment list" where
  "getHexagonEdges vertices =
     map (\<lambda>i. \<lparr>start = vertices ! i, endp = vertices ! ((i + 1) mod length vertices)\<rparr>)
       [0..<length vertices]"

definition pointToLineSegmentDistance :: "Vector2D \<Rightarrow> Vector2D \<Rightarrow> Vector2D \<Rightarrow> real" where
  "pointToLineSegmentDistance point lineStart lineEnd =
     (let A = x point - x lineStart;
          B = y point - y lineStart;
          C = x lineEnd - x lineStart;
          D = y lineEnd - y lineStart;
          dot = A * C + B * D;
          lenSq = C * C + D * D
      in if lenSq = 0 then sqrt (A * A + B * B)
         else
           let param = dot / lenSq;
               closestPoint =
                 (if param < 0 then lineStart
                  else if param > 1 then lineEnd
                  else \<lparr>x = x lineStart + param * C, y = y lineStart + param * D\<rparr>);
               dx = x point - x closestPoint;
               dy = y point - y closestPoint
           in sqrt (dx * dx + dy * dy))"

text \<open>
  The \<^verbatim>\<open>for (const edge of edges)\<close> loop of \<^verbatim>\<open>checkHexagonCollision\<close>, on the
  pair of its two variables \<^verbatim>\<open>minDistance\<close> and \<^verbatim>\<open>closestWall\<close>
  (\<open>None\<close> is \<^verbatim>\<open>null\<close>).
\<close>

fun closestWallLoop ::
  "Vector2D \<Rightarrow> LineSegment list \<Rightarrow> number \<times> LineSegment option \<Rightarrow> number \<times> LineSegment option"
where
  "closestWallLoop ballPosition [] st = st"
| "closestWallLoop ballPosition (edge # edges) (minDistance, closestWall) =
     (let d = pointToLineSegmentDistance ballPosition (start edge) (endp edge)
      in if num_less d minDistance
         then closestWallLoop ballPosition edges (Num d, Some edge)
         else closestWallLoop ballPosition edges (minDistance, closestWall))"

definition checkHexagonCollision ::
  "Vector2D \<Rightarrow> real \<Rightarrow> Vector2D \<Rightarrow> real \<Rightarrow> real \<Rightarrow> CollisionResult" where
  "checkHexagonCollision ballPosition ballRadius hexagonCenter hexagonRadius rotation =
     (let vertices = generateHexagonVertices (x hexagonCenter) (y hexagonCenter)
                       hexagonRadius rotation;
          edges = getHexagonEdges vertices
      in case closestWallLoop ballPosition edges (Infinity, None) of
           (minDistance, None) \<Rightarrow>
             \<lparr>hasCollision = False, distance = Infinity,
              wallStart = \<lparr>x = 0, y = 0\<rparr>, wallEnd = \<lparr>x = 0, y = 0\<rparr>\<rparr>
         | (minDistance, Some closestWall) \<Rightarrow>
             \<lparr>hasCollision = num_le minDistance ballRadius, distance = minDistance,
              wallStart = start closestWall, wallEnd = endp closestWall\<rparr>)"

text \<open>
  The ray casting loop \<^verbatim>\<open>for (i = 0, j = n - 1; i < n; j = i++)\<close> of
  \<^verbatim>\<open>isPointInsideHexagon\<close>, on the pair \<open>(j, inside)\<close>. The conjunction is
  evaluated left to right, so the quotient is only taken when \<open>yi \<noteq> yj\<close>.
\<close>

definition rayCastStep :: "Vector2D \<Rightarrow> HexagonVertex list \<Rightarrow> nat \<Rightarrow> nat \<times> bool \<Rightarrow> nat \<times> bool" where
  "rayCastStep point vertices i st =
     (case st of (j, inside) \<Rightarrow>
        let xi = x (vertices ! i);
            yi = y (vertices ! i);
            xj = x (vertices ! j);
            yj = y (vertices ! j)
        in if (yi > y point) \<noteq> (yj > y point)
              \<and> x point < ((xj - xi) * (y point - yi)) / (yj - yi) + xi
           then (i, \<not> inside) else (i, inside))"

definition isPointInsideHexagon :: "Vector2D \<Rightarrow> Vector2D \<Rightarrow> real \<Rightarrow> real \<Rightarrow> bool" where
  "isPointInsideHexagon point hexagonCenter hexagonRadius rotation =
     (let vertices = generateHexagonVertices (x hexagonCenter) (y hexagonCenter)
                       hexagonRadius rotation
      in snd (fold (rayCastStep point vertices) [0..<length vertices]
                (length vertices - 1, False)))"

text \<open>
  \<^verbatim>\<open>constrainBallInsideHexagon\<close>. The two draws of \<^verbatim>\<open>Math.random()\<close> in the
  branch for a ball exactly at the centre are the parameters \<open>rand1\<close> and \<open>rand2\<close>.
\<close>

definition constrainBallInsideHexagon ::
  "real \<Rightarrow> real \<Rightarrow> Vector2D \<Rightarrow> real \<Rightarrow> Vector2D \<Rightarrow> real \<Rightarrow> real \<Rightarrow> Vector2D" where
  "constrainBallInsideHexagon rand1 rand2 ballPosition ballRadius hexagonCenter hexagonRadius rotation =
     (let collision = checkHexagonCollision ballPosition ballRadius hexagonCenter
                        hexagonRadius rotation
      in if \<not> hasCollision collision then ballPosition
         else
           let directionToCenter = Vector_subtract hexagonCenter ballPosition;
               distanceToCenter = Vector_magnitude directionToCenter
           in if distanceToCenter = 0
              then Vector_add ballPosition \<lparr>x = rand1 - 1 / 2, y = rand2 - 1 / 2\<rparr>
              else
                let normalizedDirection = Vector_normalize directionToCenter;
                    safeDistance = hexagonRadius - ballRadius - 10;
                    safePosition = Vector_add hexagonCenter
                                     (Vector_multiply normalizedDirection (- safeDistance))
                in safePosition)"

section \<open>Notions used to state the properties\<close>

text \<open>
  The six edges that \<^verbatim>\<open>checkHexagonCollision\<close> builds (lines 121 to 129) and the
  distance it computes for one of them (line 136).
\<close>

definition hexagonEdges :: "Vector2D \<Rightarrow> real \<Rightarrow> real \<Rightarrow> LineSegment list" where
  "hexagonEdges hexagonCenter hexagonRadius rotation =
     getHexagonEdges
       (generateHexagonVertices (x hexagonCenter) (y hexagonCenter) hexagonRadius rotation)"

definition edgeDistance :: "Vector2D \<Rightarrow> LineSegment \<Rightarrow> real" where
  "edgeDistance p e = pointToLineSegmentDistance p (start e) (endp e)"

text \<open>
  The specification's description of the point-to-segment distance, in its own words:
  project the point onto the infinite line through the segment, clamp the projection
  parameter to \<open>[0, 1]\<close>, and take the point of the segment at that parameter. These
  three definitions follow the specification, not the code; the code is compared with
  them below.
\<close>

definition projectionParameter :: "Vector2D \<Rightarrow> Vector2D \<Rightarrow> Vector2D \<Rightarrow> real" where
  "projectionParameter point segStart segEnd =
     Vector_dot (Vector_subtract point segStart) (Vector_subtract segEnd segStart)
       / Vector_dot (Vector_subtract segEnd segStart) (Vector_subtract segEnd segStart)"

definition segmentPoint :: "Vector2D \<Rightarrow> Vector2D \<Rightarrow> real \<Rightarrow> Vector2D" where
  "segmentPoint segStart segEnd s =
     Vector_add segStart (Vector_multiply (Vector_subtract segEnd segStart) s)"

definition closestPointOnSegment :: "Vector2D \<Rightarrow> Vector2D \<Rightarrow> Vector2D \<Rightarrow> Vector2D" where
  "closestPointOnSegment point segStart segEnd =
     segmentPoint segStart segEnd (max 0 (min 1 (projectionParameter point segStart segEnd)))"

section \<open>Vector lemmas\<close>

lemma magnitude_nonneg: "0 \<le> Vector_magnitude v"
  by (simp add: Vector_magnitude_def)

lemma normalize_unit_or_zero:
  "x (Vector_normalize v) * x (Vector_normalize v)
     + y (Vector_normalize v) * y (Vector_normalize v) = 1
   \<or> Vector_normalize v = \<lparr>x = 0, y = 0\<rparr>"
proof (cases "Vector_magnitude v = 0")
  case True
  then show ?thesis by (simp add: Vector_normalize_def)
next
  case False
  define m where "m = Vector_magnitude v"
  have m2: "m * m = x v * x v + y v * y v"
    unfolding m_def Vector_magnitude_def
    by (simp add: add_nonneg_nonneg)
  have "m \<noteq> 0" using False m_def by simp
  have "x v / m * (x v / m) + y v / m * (y v / m) = (x v * x v + y v * y v) / (m * m)"
    by (simp add: add_divide_distrib)
  also have "\<dots> = 1" using m2 \<open>m \<noteq> 0\<close> by (metis divide_self mult_eq_0_iff)
  finally have unit: "x v / m * (x v / m) + y v / m * (y v / m) = 1" .
  have "Vector_normalize v = \<lparr>x = x v / m, y = y v / m\<rparr>"
    using False by (simp add: Vector_normalize_def Let_def m_def)
  then show ?thesis using unit by simp
qed

lemma reflect_sq:
  fixes vx vy ux uy :: real
  assumes "ux * ux + uy * uy = 1"
  shows "(vx - ux * (2 * (vx * ux + vy * uy))) * (vx - ux * (2 * (vx * ux + vy * uy)))
       + (vy - uy * (2 * (vx * ux + vy * uy))) * (vy - uy * (2 * (vx * ux + vy * uy)))
       = vx * vx + vy * vy"
proof -
  define d where "d = vx * ux + vy * uy"
  have "(vx - ux * (2 * d)) * (vx - ux * (2 * d)) + (vy - uy * (2 * d)) * (vy - uy * (2 * d))
      = vx * vx + vy * vy - 4 * d * (vx * ux + vy * uy) + 4 * d * d * (ux * ux + uy * uy)"
    by (simp add: algebra_simps)
  also have "\<dots> = vx * vx + vy * vy" using assms by (simp add: d_def)
  finally show ?thesis by (simp add: d_def)
qed

text \<open>Reflection keeps the length, whatever the normal: a zero normal leaves the vector as it is.\<close>

lemma magnitude_reflect: "Vector_magnitude (Vector_reflect v n) = Vector_magnitude v"
proof -
  consider (unit) "x (Vector_normalize n) * x (Vector_normalize n)
                     + y (Vector_normalize n) * y (Vector_normalize n) = 1"
    | (zero) "Vector_normalize n = \<lparr>x = 0, y = 0\<rparr>"
    using normalize_unit_or_zero by blast
  then show ?thesis
  proof cases
    case unit
    show ?thesis
      unfolding Vector_reflect_def Let_def Vector_magnitude_def Vector_subtract_def
        Vector_multiply_def Vector_dot_def
      using reflect_sq[OF unit] by simp
  next
    case zero
    show ?thesis
      by (simp add: Vector_reflect_def Let_def zero Vector_subtract_def Vector_multiply_def
          Vector_magnitude_def)
  qed
qed

lemma magnitude_multiply: "Vector_magnitude (Vector_multiply v c) = \<bar>c\<bar> * Vector_magnitude v"
proof -
  have "x v * c * (x v * c) + y v * c * (y v * c) = (c * c) * (x v * x v + y v * y v)"
    by (simp add: algebra_simps)
  then show ?thesis
    by (simp add: Vector_magnitude_def Vector_multiply_def real_sqrt_mult)
qed

section \<open>The physics integrator\<close>

text \<open>
  Claim C3: one tick of \<^verbatim>\<open>updateBallPhysics\<close>. The velocity first gains the gravity
  vector \<open>(0, 500)\<close> times \<open>deltaTime\<close>, is then multiplied by the friction \<open>0.98\<close>
  once (with no factor \<open>deltaTime\<close>), and is last replaced by \<open>(0, 0)\<close> when its
  length is below \<open>0.1\<close>; the position is the old one plus this final velocity times
  \<open>deltaTime\<close>; the radius stays.
\<close>

theorem updateBallPhysics_order:
  "let vx = (x (velocity ball) + 0 * deltaTime) * (98 / 100);
       vy = (y (velocity ball) + 500 * deltaTime) * (98 / 100);
       v = (if sqrt (vx * vx + vy * vy) < 1 / 10 then \<lparr>x = 0, y = 0\<rparr>
            else \<lparr>x = vx, y = vy\<rparr>)
   in updateBallPhysics ball deltaTime =
        \<lparr>position = \<lparr>x = x (position ball) + x v * deltaTime,
                      y = y (position ball) + y v * deltaTime\<rparr>,
         velocity = v, radius = radius ball\<rparr>"
proof (cases ball)
  case (fields p v r)
  show ?thesis
    unfolding fields updateBallPhysics_def Let_def Vector_create_def Vector_multiply_def
      Vector_add_def Vector_magnitude_def GRAVITY_def FRICTION_def MIN_VELOCITY_def
    by (simp only: Ball.simps Vector2D.simps)
qed

section \<open>The collision resolver\<close>

text \<open>
  Claim C10: called with a distance above the ball's radius, \<^verbatim>\<open>handleWallCollision\<close>
  returns the ball it was given: same position, velocity and radius.
\<close>

theorem handleWallCollision_noop:
  "wallDistance > radius ball \<Longrightarrow> handleWallCollision ball wStart wEnd wallDistance = ball"
  by (simp add: handleWallCollision_def)

theorem handleWallCollision_noop_witness:
  "handleWallCollision
     \<lparr>position = \<lparr>x = 300, y = 300\<rparr>, velocity = \<lparr>x = 10, y = 20\<rparr>, radius = 8\<rparr>
     \<lparr>x = 0, y = 400\<rparr> \<lparr>x = 600, y = 400\<rparr> 100
   = \<lparr>position = \<lparr>x = 300, y = 300\<rparr>, velocity = \<lparr>x = 10, y = 20\<rparr>, radius = 8\<rparr>"
  using handleWallCollision_noop
    [of "\<lparr>position = \<lparr>x = 300, y = 300\<rparr>, velocity = \<lparr>x = 10, y = 20\<rparr>, radius = 8\<rparr>"
        100 "\<lparr>x = 0, y = 400\<rparr>" "\<lparr>x = 600, y = 400\<rparr>"]
  by simp

text \<open>
  Claim C4: in a collision (distance at most the radius) the velocity returned by
  \<^verbatim>\<open>handleWallCollision\<close> is no longer than the velocity of the ball that came in.
\<close>

theorem handleWallCollision_energy:
  "wallDistance \<le> radius ball \<Longrightarrow>
   Vector_magnitude (velocity (handleWallCollision ball wStart wEnd wallDistance))
     \<le> Vector_magnitude (velocity ball)"
proof -
  assume "wallDistance \<le> radius ball"
  then have "Vector_magnitude (velocity (handleWallCollision ball wStart wEnd wallDistance))
     = (85 / 100) * Vector_magnitude (velocity ball)"
    by (simp add: handleWallCollision_def Let_def magnitude_multiply magnitude_reflect
        BOUNCE_DAMPING_def)
  then show ?thesis using magnitude_nonneg[of "velocity ball"] by simp
qed

theorem handleWallCollision_energy_witness:
  "Vector_magnitude (velocity (handleWallCollision
     \<lparr>position = \<lparr>x = 300, y = 395\<rparr>, velocity = \<lparr>x = 30, y = 40\<rparr>, radius = 8\<rparr>
     \<lparr>x = 0, y = 400\<rparr> \<lparr>x = 600, y = 400\<rparr> 5)) \<le> 50"
proof -
  have "Vector_magnitude \<lparr>x = 30, y = 40\<rparr> = 50"
    by (simp add: Vector_magnitude_def real_sqrt_unique[of 50 2500])
  then show ?thesis
    using handleWallCollision_energy
      [of 5 "\<lparr>position = \<lparr>x = 300, y = 395\<rparr>, velocity = \<lparr>x = 30, y = 40\<rparr>, radius = 8\<rparr>"
          "\<lparr>x = 0, y = 400\<rparr>" "\<lparr>x = 600, y = 400\<rparr>"]
    by simp
qed

text \<open>
  Claim C5: in a collision, \<^verbatim>\<open>handleWallCollision\<close> reflects the velocity about, and
  moves the position along, the oriented wall normal, and the dot product of that normal
  with the vector from the wall's midpoint \<open>(wallStart + wallEnd) / 2\<close> to the ball's
  position is never negative.
\<close>

theorem handleWallCollision_normal_orientation:
  "wallDistance \<le> radius ball \<Longrightarrow>
   (let n = orientedWallNormal ball wStart wEnd;
        wallMidpoint = Vector_multiply (Vector_add wStart wEnd) (1 / 2)
    in handleWallCollision ball wStart wEnd wallDistance
         = ball\<lparr>position := Vector_add (position ball)
                               (Vector_multiply n (radius ball - wallDistance)),
                velocity := Vector_multiply (Vector_reflect (velocity ball) n) BOUNCE_DAMPING\<rparr>
       \<and> Vector_dot n (Vector_subtract (position ball) wallMidpoint) \<ge> 0)"
proof -
  assume hit: "wallDistance \<le> radius ball"
  have "Vector_dot (orientedWallNormal ball wStart wEnd)
          (Vector_subtract (position ball) (Vector_multiply (Vector_add wStart wEnd) (1 / 2)))
        \<ge> 0"
    unfolding orientedWallNormal_def Let_def
    by (simp add: Vector_dot_def algebra_simps)
  with hit show ?thesis
    by (simp add: handleWallCollision_def Let_def)
qed

theorem handleWallCollision_normal_orientation_witness:
  "Vector_dot
     (orientedWallNormal
        \<lparr>position = \<lparr>x = 300, y = 395\<rparr>, velocity = \<lparr>x = 30, y = 40\<rparr>, radius = 8\<rparr>
        \<lparr>x = 0, y = 400\<rparr> \<lparr>x = 600, y = 400\<rparr>)
     (Vector_subtract \<lparr>x = 300, y = 395\<rparr>
        (Vector_multiply (Vector_add \<lparr>x = 0, y = 400\<rparr> \<lparr>x = 600, y = 400\<rparr>) (1 / 2)))
   \<ge> 0"
  using handleWallCollision_normal_orientation
    [of 5 "\<lparr>position = \<lparr>x = 300, y = 395\<rparr>, velocity = \<lparr>x = 30, y = 40\<rparr>, radius = 8\<rparr>"
        "\<lparr>x = 0, y = 400\<rparr>" "\<lparr>x = 600, y = 400\<rparr>"]
  by (simp add: Let_def)

section \<open>Point-to-segment distance\<close>

lemma sum_squares_zero: "(a::real) * a + b * b = 0 \<longleftrightarrow> a = 0 \<and> b = 0"
  by (simp add: sum_squares_eq_zero_iff)

lemma lenSq_zero_iff:
  "(x b - x a) * (x b - x a) + (y b - y a) * (y b - y a) = 0 \<longleftrightarrow> (a::Vector2D) = b"
  by (cases a, cases b) (auto simp add: sum_squares_zero)

lemma ptls_degenerate:
  "pointToLineSegmentDistance p a a = Vector_magnitude (Vector_subtract p a)"
  by (simp add: pointToLineSegmentDistance_def Let_def Vector_magnitude_def Vector_subtract_def)

lemma ptls_closest:
  assumes "a \<noteq> b"
  shows "pointToLineSegmentDistance p a b =
           Vector_magnitude (Vector_subtract p (closestPointOnSegment p a b))"
proof -
  define C where "C = x b - x a"
  define D where "D = y b - y a"
  define t where "t = ((x p - x a) * C + (y p - y a) * D) / (C * C + D * D)"
  have L: "C * C + D * D \<noteq> 0" using assms lenSq_zero_iff[of b a] by (simp add: C_def D_def)
  have pp: "projectionParameter p a b = t"
    by (simp add: projectionParameter_def Vector_dot_def Vector_subtract_def t_def C_def D_def)
  have lhs: "pointToLineSegmentDistance p a b =
      (let q = (if t < 0 then a else if t > 1 then b else \<lparr>x = x a + t * C, y = y a + t * D\<rparr>)
       in sqrt ((x p - x q) * (x p - x q) + (y p - y q) * (y p - y q)))"
    using L unfolding pointToLineSegmentDistance_def Let_def C_def D_def t_def by simp
  have rhs: "closestPointOnSegment p a b =
      \<lparr>x = x a + C * max 0 (min 1 t), y = y a + D * max 0 (min 1 t)\<rparr>"
    by (simp add: closestPointOnSegment_def segmentPoint_def pp Vector_add_def Vector_multiply_def
        Vector_subtract_def C_def D_def)
  consider (neg) "t < 0" | (big) "t > 1" | (mid) "0 \<le> t" "t \<le> 1" by linarith
  then show ?thesis
  proof cases
    case neg
    then show ?thesis
      by (simp add: lhs rhs Vector_magnitude_def Vector_subtract_def max_def min_def)
  next
    case big
    then show ?thesis
      by (simp add: lhs rhs Vector_magnitude_def Vector_subtract_def max_def min_def C_def D_def)
  next
    case mid
    then show ?thesis
      by (simp add: lhs rhs Vector_magnitude_def Vector_subtract_def max_def min_def mult.commute)
  qed
qed

lemma seg_quadratic:
  fixes ux uy dx dy s t L :: real
  assumes L: "L = dx * dx + dy * dy" and "L \<noteq> 0" and t: "t = (ux * dx + uy * dy) / L"
  shows "(ux - dx * s) * (ux - dx * s) + (uy - dy * s) * (uy - dy * s)
         = L * ((s - t) * (s - t)) + (ux * ux + uy * uy - t * t * L)"
proof -
  have tL: "t * L = ux * dx + uy * dy" using assms by simp
  have "L * ((s - t) * (s - t)) + (ux * ux + uy * uy - t * t * L)
        = L * s * s - 2 * s * (t * L) + ux * ux + uy * uy"
    by (simp add: algebra_simps)
  also have "\<dots> = (dx * dx + dy * dy) * s * s - 2 * s * (ux * dx + uy * dy) + ux * ux + uy * uy"
    by (simp only: tL) (simp only: L)
  also have "\<dots> = (ux - dx * s) * (ux - dx * s) + (uy - dy * s) * (uy - dy * s)"
    by (simp add: algebra_simps)
  finally show ?thesis by simp
qed

lemma clamp_nearest:
  fixes s t :: real
  assumes "0 \<le> s" "s \<le> 1"
  shows "(max 0 (min 1 t) - t) * (max 0 (min 1 t) - t) \<le> (s - t) * (s - t)"
proof -
  have "\<bar>max 0 (min 1 t) - t\<bar> \<le> \<bar>s - t\<bar>" using assms by (simp add: max_def min_def) 
  then show ?thesis by (simp add: abs_le_square_iff power2_eq_square)
qed

lemma ptls_minimal:
  assumes "0 \<le> s" "s \<le> 1"
  shows "pointToLineSegmentDistance p a b \<le> Vector_magnitude (Vector_subtract p (segmentPoint a b s))"
proof (cases "a = b")
  case True
  then show ?thesis
    by (simp add: ptls_degenerate segmentPoint_def Vector_subtract_def Vector_add_def
        Vector_multiply_def Vector_magnitude_def)
next
  case False
  define dx where "dx = x b - x a"
  define dy where "dy = y b - y a"
  define ux where "ux = x p - x a"
  define uy where "uy = y p - y a"
  define L where "L = dx * dx + dy * dy"
  define t where "t = (ux * dx + uy * dy) / L"
  define f where "f = (\<lambda>r. (ux - dx * r) * (ux - dx * r) + (uy - dy * r) * (uy - dy * r))"
  have Lnz: "L \<noteq> 0" using False lenSq_zero_iff[of b a] by (simp add: L_def dx_def dy_def)
  have Lpos: "0 < L"
  proof -
    have "0 \<le> L" by (simp add: L_def)
    with Lnz show ?thesis by simp
  qed
  have fq: "f r = L * ((r - t) * (r - t)) + (ux * ux + uy * uy - t * t * L)" for r
    unfolding f_def using seg_quadratic[OF L_def Lnz t_def] .
  have pp: "projectionParameter p a b = t"
    by (simp add: projectionParameter_def Vector_dot_def Vector_subtract_def t_def L_def
        dx_def dy_def ux_def uy_def)
  have magf: "Vector_magnitude (Vector_subtract p (segmentPoint a b r)) = sqrt (f r)" for r
    by (simp add: Vector_magnitude_def Vector_subtract_def segmentPoint_def Vector_add_def
        Vector_multiply_def f_def dx_def dy_def ux_def uy_def algebra_simps)
  have "pointToLineSegmentDistance p a b = sqrt (f (max 0 (min 1 t)))"
    using ptls_closest[OF False, of p] magf[of "max 0 (min 1 t)"]
    by (simp add: closestPointOnSegment_def pp)
  moreover have "f (max 0 (min 1 t)) \<le> f s"
    using clamp_nearest[OF assms, of t] Lpos by (simp add: fq)
  ultimately show ?thesis by (simp add: magf)
qed

lemma ptls_example_on_segment: "pointToLineSegmentDistance \<lparr>x = 0, y = 0\<rparr> \<lparr>x = 0, y = -5\<rparr> \<lparr>x = 0, y = 5\<rparr> = 0"
  by (simp add: pointToLineSegmentDistance_def Let_def)

lemma ptls_example_beside_segment: "pointToLineSegmentDistance \<lparr>x = 10, y = 0\<rparr> \<lparr>x = 0, y = -5\<rparr> \<lparr>x = 0, y = 5\<rparr> = 10"
  by (simp add: pointToLineSegmentDistance_def Let_def real_sqrt_unique[of 10 100])

text \<open>
  Claim C8: \<^verbatim>\<open>pointToLineSegmentDistance\<close> is the Euclidean distance from the point
  to the closest point of the segment. For a segment of zero length it is the distance to
  \<open>segStart\<close>; otherwise it is the distance to the point obtained by projecting onto
  the line through the segment and clamping the parameter to \<open>[0, 1]\<close>; no point of
  the segment is closer. The point \<open>(0, 0)\<close> is at distance \<open>0\<close> and the point
  \<open>(10, 0)\<close> at distance \<open>10\<close> from the segment from \<open>(0, -5)\<close> to \<open>(0, 5)\<close>.
\<close>

theorem pointToLineSegmentDistance_closest:
  "(segStart = segEnd \<longrightarrow>
      pointToLineSegmentDistance point segStart segEnd
        = Vector_magnitude (Vector_subtract point segStart))
   \<and> (segStart \<noteq> segEnd \<longrightarrow>
      pointToLineSegmentDistance point segStart segEnd
        = Vector_magnitude (Vector_subtract point (closestPointOnSegment point segStart segEnd)))
   \<and> (\<forall>s. 0 \<le> s \<and> s \<le> 1 \<longrightarrow>
      pointToLineSegmentDistance point segStart segEnd
        \<le> Vector_magnitude (Vector_subtract point (segmentPoint segStart segEnd s)))
   \<and> pointToLineSegmentDistance \<lparr>x = 0, y = 0\<rparr> \<lparr>x = 0, y = -5\<rparr> \<lparr>x = 0, y = 5\<rparr> = 0
   \<and> pointToLineSegmentDistance \<lparr>x = 10, y = 0\<rparr> \<lparr>x = 0, y = -5\<rparr> \<lparr>x = 0, y = 5\<rparr> = 10"
  using ptls_degenerate[of point segStart] ptls_closest[of segStart segEnd point]
    ptls_minimal[of _ point segStart segEnd]
    ptls_example_on_segment ptls_example_beside_segment
  by blast

theorem pointToLineSegmentDistance_closest_witness:
  "pointToLineSegmentDistance \<lparr>x = 3, y = 4\<rparr> \<lparr>x = 0, y = 0\<rparr> \<lparr>x = 0, y = 0\<rparr>
     = Vector_magnitude (Vector_subtract \<lparr>x = 3, y = 4\<rparr> \<lparr>x = 0, y = 0\<rparr>)
   \<and> pointToLineSegmentDistance \<lparr>x = 10, y = 0\<rparr> \<lparr>x = 0, y = -5\<rparr> \<lparr>x = 0, y = 5\<rparr>
       = Vector_magnitude (Vector_subtract \<lparr>x = 10, y = 0\<rparr>
           (closestPointOnSegment \<lparr>x = 10, y = 0\<rparr> \<lparr>x = 0, y = -5\<rparr> \<lparr>x = 0, y = 5\<rparr>))
   \<and> pointToLineSegmentDistance \<lparr>x = 10, y = 0\<rparr> \<lparr>x = 0, y = -5\<rparr> \<lparr>x = 0, y = 5\<rparr>
       \<le> Vector_magnitude (Vector_subtract \<lparr>x = 10, y = 0\<rparr>
           (segmentPoint \<lparr>x = 0, y = -5\<rparr> \<lparr>x = 0, y = 5\<rparr> (1 / 4)))"
proof -
  have ne: "\<lparr>x = 0, y = -5\<rparr> \<noteq> \<lparr>x = 0, y = 5 :: real\<rparr>" by simp
  have s: "(0::real) \<le> 1 / 4 \<and> (1 / 4 :: real) \<le> 1" by simp
  show ?thesis
    using ne s
      pointToLineSegmentDistance_closest
        [of "\<lparr>x = 0, y = 0\<rparr>" "\<lparr>x = 0, y = 0\<rparr>" "\<lparr>x = 3, y = 4\<rparr>"]
      pointToLineSegmentDistance_closest
        [of "\<lparr>x = 0, y = -5\<rparr>" "\<lparr>x = 0, y = 5\<rparr>" "\<lparr>x = 10, y = 0\<rparr>"]
    by blast
qed

section \<open>Hexagon vertices\<close>

lemma length_generateHexagonVertices: "length (generateHexagonVertices cx cy r rot) = 6"
  by (simp add: generateHexagonVertices_def)

lemma nth_generateHexagonVertices:
  "i < 6 \<Longrightarrow> generateHexagonVertices cx cy r rot ! i =
     \<lparr>x = cx + r * cos ((pi / 3) * real i + rot), y = cy + r * sin ((pi / 3) * real i + rot)\<rparr>"
  by (simp add: generateHexagonVertices_def Let_def)

lemma polar_magnitude: "sqrt (r * cos a * (r * cos a) + r * sin a * (r * sin a)) = \<bar>r\<bar>"
proof -
  have "r * cos a * (r * cos a) + r * sin a * (r * sin a) = (r * r) * (cos a * cos a + sin a * sin a)"
    by (simp only: distrib_left mult_ac)
  then show ?thesis by (simp add: sin_cos_squared_add3)
qed

text \<open>
  Claim C9: \<^verbatim>\<open>generateHexagonVertices\<close> returns exactly six points; the \<open>i\<close>-th,
  for \<open>i\<close> from \<open>0\<close> to \<open>5\<close> in this order, lies at the angle
  \<open>i * (pi / 3) + rotation\<close> as seen from the centre, so consecutive vertices are
  \<open>60\<close> degrees apart, and at the distance \<open>radius\<close> from the centre (the absolute
  value of \<open>radius\<close>, which is \<open>radius\<close> itself for the non-negative radius of a
  hexagon).
\<close>

theorem generateHexagonVertices_polar:
  "length (generateHexagonVertices centerX centerY hexRadius rotation) = 6
   \<and> (\<forall>i<6.
        generateHexagonVertices centerX centerY hexRadius rotation ! i
          = \<lparr>x = centerX + hexRadius * cos (real i * (pi / 3) + rotation),
             y = centerY + hexRadius * sin (real i * (pi / 3) + rotation)\<rparr>
        \<and> Vector_magnitude
            (Vector_subtract (generateHexagonVertices centerX centerY hexRadius rotation ! i)
               \<lparr>x = centerX, y = centerY\<rparr>) = \<bar>hexRadius\<bar>
        \<and> (0 \<le> hexRadius \<longrightarrow>
             Vector_magnitude
               (Vector_subtract (generateHexagonVertices centerX centerY hexRadius rotation ! i)
                  \<lparr>x = centerX, y = centerY\<rparr>) = hexRadius))"
  by (simp add: length_generateHexagonVertices nth_generateHexagonVertices Vector_magnitude_def
      Vector_subtract_def polar_magnitude mult.commute)

theorem generateHexagonVertices_polar_witness:
  "generateHexagonVertices 300 300 100 0 ! 1 = \<lparr>x = 350, y = 300 + 50 * sqrt 3\<rparr>
   \<and> Vector_magnitude
        (Vector_subtract (generateHexagonVertices 300 300 100 0 ! 1) \<lparr>x = 300, y = 300\<rparr>) = 100"
proof -
  have "(1::nat) < 6" by simp
  with generateHexagonVertices_polar[of 300 300 100 0]
  have v: "generateHexagonVertices 300 300 100 0 ! 1
          = \<lparr>x = 300 + 100 * cos (real 1 * (pi / 3) + 0),
             y = 300 + 100 * sin (real 1 * (pi / 3) + 0)\<rparr>"
    and m: "Vector_magnitude
            (Vector_subtract (generateHexagonVertices 300 300 100 0 ! 1) \<lparr>x = 300, y = 300\<rparr>)
          = \<bar>100\<bar>"
    by blast+
  have "real 1 * (pi / 3) + 0 = pi / 3" by simp
  then have "generateHexagonVertices 300 300 100 0 ! 1 = \<lparr>x = 350, y = 300 + 50 * sqrt 3\<rparr>"
    using v by (simp only: cos_60 sin_60) simp
  with m show ?thesis by simp
qed

section \<open>The collision detector\<close>

lemma closestWallLoop_append:
  "closestWallLoop p (es @ fs) st = closestWallLoop p fs (closestWallLoop p es st)"
proof (induction es arbitrary: st)
  case Nil
  show ?case by simp
next
  case (Cons e es)
  obtain m w where st: "st = (m, w)" by (cases st)
  show ?case unfolding st by (simp add: Let_def Cons.IH)
qed

lemma closestWallLoop_first_min:
  "es \<noteq> [] \<Longrightarrow>
   \<exists>k<length es. closestWallLoop p es (Infinity, None) = (Num (edgeDistance p (es ! k)), Some (es ! k))
     \<and> (\<forall>j<k. edgeDistance p (es ! k) < edgeDistance p (es ! j))
     \<and> (\<forall>j<length es. edgeDistance p (es ! k) \<le> edgeDistance p (es ! j))"
proof (induction es rule: rev_induct)
  case Nil
  then show ?case by simp
next
  case (snoc e es)
  show ?case
  proof (cases "es = []")
    case True
    then show ?thesis by (simp add: Let_def edgeDistance_def)
  next
    case False
    from snoc.IH[OF False] obtain k where k: "k < length es"
      and run: "closestWallLoop p es (Infinity, None) = (Num (edgeDistance p (es ! k)), Some (es ! k))"
      and before: "\<forall>j<k. edgeDistance p (es ! k) < edgeDistance p (es ! j)"
      and all: "\<forall>j<length es. edgeDistance p (es ! k) \<le> edgeDistance p (es ! j)"
      by blast
    show ?thesis
    proof (cases "edgeDistance p e < edgeDistance p (es ! k)")
      case True
      have "closestWallLoop p (es @ [e]) (Infinity, None) = (Num (edgeDistance p e), Some e)"
        using True by (simp add: closestWallLoop_append run Let_def edgeDistance_def)
      moreover have "\<forall>j<length es. edgeDistance p e < edgeDistance p ((es @ [e]) ! j)"
        using all True by (auto simp: nth_append)
      moreover have "\<forall>j<length (es @ [e]). edgeDistance p e \<le> edgeDistance p ((es @ [e]) ! j)"
        using all True by (auto simp: nth_append less_Suc_eq)
      ultimately show ?thesis
        by (intro exI[of _ "length es"]) simp
    next
      case False
      have "closestWallLoop p (es @ [e]) (Infinity, None)
              = (Num (edgeDistance p ((es @ [e]) ! k)), Some ((es @ [e]) ! k))"
        using False k by (simp add: closestWallLoop_append run Let_def edgeDistance_def nth_append)
      moreover have "\<forall>j<k. edgeDistance p ((es @ [e]) ! k) < edgeDistance p ((es @ [e]) ! j)"
        using before k by (auto simp: nth_append)
      moreover have "\<forall>j<length (es @ [e]). edgeDistance p ((es @ [e]) ! k) \<le> edgeDistance p ((es @ [e]) ! j)"
        using all False k by (auto simp: nth_append less_Suc_eq)
      ultimately show ?thesis
        using k by (intro exI[of _ k]) simp
    qed
  qed
qed

lemma Min_of_first_min:
  assumes "k < length es" "\<forall>j<length es. edgeDistance p (es ! k) \<le> edgeDistance p (es ! j)"
  shows "Min (set (map (edgeDistance p) es)) = edgeDistance p (es ! k)"
proof (rule Min_eqI)
  show "finite (set (map (edgeDistance p) es))" by simp
  show "edgeDistance p (es ! k) \<in> set (map (edgeDistance p) es)" using assms(1) by simp
  fix d assume "d \<in> set (map (edgeDistance p) es)"
  then obtain j where "j < length es" "d = edgeDistance p (es ! j)"
    by (auto simp: in_set_conv_nth)
  then show "edgeDistance p (es ! k) \<le> d" using assms(2) by simp
qed

lemma length_hexagonEdges: "length (hexagonEdges c R rot) = 6"
  by (simp add: hexagonEdges_def getHexagonEdges_def generateHexagonVertices_def)

lemma nth_hexagonEdges:
  "k < 6 \<Longrightarrow> hexagonEdges c R rot ! k =
     \<lparr>start = generateHexagonVertices (x c) (y c) R rot ! k,
      endp = generateHexagonVertices (x c) (y c) R rot ! ((k + 1) mod 6)\<rparr>"
  by (simp add: hexagonEdges_def getHexagonEdges_def length_generateHexagonVertices)

text \<open>What the loop leaves behind, in terms of the first edge of least distance.\<close>

lemma checkHexagonCollision_first_min:
  "\<exists>k<6. checkHexagonCollision p r c R rot
            = \<lparr>hasCollision = (edgeDistance p (hexagonEdges c R rot ! k) \<le> r),
               distance = Num (edgeDistance p (hexagonEdges c R rot ! k)),
               wallStart = start (hexagonEdges c R rot ! k),
               wallEnd = endp (hexagonEdges c R rot ! k)\<rparr>
          \<and> Min (set (map (edgeDistance p) (hexagonEdges c R rot)))
              = edgeDistance p (hexagonEdges c R rot ! k)
          \<and> (\<forall>j<k. edgeDistance p (hexagonEdges c R rot ! k)
                      < edgeDistance p (hexagonEdges c R rot ! j))"
proof -
  define edges where "edges = hexagonEdges c R rot"
  have len: "length edges = 6" by (simp add: edges_def length_hexagonEdges)
  then have "edges \<noteq> []" by auto
  from closestWallLoop_first_min[OF this, of p] obtain k where k: "k < length edges"
      and run: "closestWallLoop p edges (Infinity, None)
                 = (Num (edgeDistance p (edges ! k)), Some (edges ! k))"
      and before: "\<forall>j<k. edgeDistance p (edges ! k) < edgeDistance p (edges ! j)"
      and all: "\<forall>j<length edges. edgeDistance p (edges ! k) \<le> edgeDistance p (edges ! j)"
    by blast
  have mn: "Min (set (map (edgeDistance p) edges)) = edgeDistance p (edges ! k)"
    using Min_of_first_min[OF k all] .
  have res: "checkHexagonCollision p r c R rot
     = \<lparr>hasCollision = (edgeDistance p (edges ! k) \<le> r),
        distance = Num (edgeDistance p (edges ! k)),
        wallStart = start (edges ! k), wallEnd = endp (edges ! k)\<rparr>"
    using run by (simp add: checkHexagonCollision_def Let_def edges_def hexagonEdges_def)
  show ?thesis
    unfolding edges_def[symmetric]
    using k before len res mn by (intro exI[of _ k]) simp
qed

text \<open>
  Claim C2: \<^verbatim>\<open>checkHexagonCollision\<close> looks at the six edges from vertex \<open>k\<close> to
  vertex \<open>(k + 1) mod 6\<close>; its \<open>distance\<close> is the least of the six point-to-segment
  distances from the ball position, \<open>wallStart\<close> and \<open>wallEnd\<close> are the end points of
  the first edge in vertex order that has this least distance, and \<open>hasCollision\<close>
  holds exactly when the least distance is at most the ball radius.
\<close>

theorem checkHexagonCollision_min:
  "let vertices = generateHexagonVertices (x hexagonCenter) (y hexagonCenter)
                    hexagonRadius rotation;
       edges = hexagonEdges hexagonCenter hexagonRadius rotation;
       ds = map (edgeDistance ballPosition) edges;
       res = checkHexagonCollision ballPosition ballRadius hexagonCenter hexagonRadius rotation
   in length edges = 6
      \<and> (\<forall>k<6. edges ! k = \<lparr>start = vertices ! k, endp = vertices ! ((k + 1) mod 6)\<rparr>)
      \<and> distance res = Num (Min (set ds))
      \<and> (\<exists>k<6. wallStart res = start (edges ! k) \<and> wallEnd res = endp (edges ! k)
                \<and> ds ! k = Min (set ds) \<and> (\<forall>j<k. Min (set ds) < ds ! j))
      \<and> hasCollision res = (Min (set ds) \<le> ballRadius)"
proof -
  from checkHexagonCollision_first_min[of ballPosition ballRadius hexagonCenter hexagonRadius rotation]
  obtain k where k: "k < 6"
    and res: "checkHexagonCollision ballPosition ballRadius hexagonCenter hexagonRadius rotation
            = \<lparr>hasCollision = (edgeDistance ballPosition
                                 (hexagonEdges hexagonCenter hexagonRadius rotation ! k) \<le> ballRadius),
               distance = Num (edgeDistance ballPosition
                                 (hexagonEdges hexagonCenter hexagonRadius rotation ! k)),
               wallStart = start (hexagonEdges hexagonCenter hexagonRadius rotation ! k),
               wallEnd = endp (hexagonEdges hexagonCenter hexagonRadius rotation ! k)\<rparr>"
    and mn: "Min (set (map (edgeDistance ballPosition)
                         (hexagonEdges hexagonCenter hexagonRadius rotation)))
              = edgeDistance ballPosition (hexagonEdges hexagonCenter hexagonRadius rotation ! k)"
    and before: "\<forall>j<k. edgeDistance ballPosition (hexagonEdges hexagonCenter hexagonRadius rotation ! k)
                      < edgeDistance ballPosition (hexagonEdges hexagonCenter hexagonRadius rotation ! j)"
    by blast
  show ?thesis
    unfolding Let_def res mn
    using k before
    by (auto simp: length_hexagonEdges nth_hexagonEdges intro!: exI[of _ k])
qed

section \<open>A concrete hexagon: centre (300, 300), radius 100, rotation 0\<close>

lemma cos_240: "cos (4 * pi / 3) = - (1 / 2)"
proof -
  have "cos (4 * pi / 3) = cos (pi / 3 + pi)" by (simp add: field_simps)
  then show ?thesis by (simp only: cos_periodic_pi cos_60)
qed

lemma sin_240: "sin (4 * pi / 3) = - (sqrt 3 / 2)"
proof -
  have "sin (4 * pi / 3) = sin (pi / 3 + pi)" by (simp add: field_simps)
  then show ?thesis by (simp only: sin_periodic_pi sin_60)
qed

lemma cos_300: "cos (5 * pi / 3) = 1 / 2"
proof -
  have "cos (5 * pi / 3) = cos (- (pi / 3) + 2 * pi)" by (simp add: field_simps)
  then show ?thesis by (simp only: cos_periodic cos_minus cos_60)
qed

lemma sin_300: "sin (5 * pi / 3) = - (sqrt 3 / 2)"
proof -
  have "sin (5 * pi / 3) = sin (- (pi / 3) + 2 * pi)" by (simp add: field_simps)
  then show ?thesis by (simp only: sin_periodic sin_minus sin_60)
qed

lemma upt6: "[0..<6] = [0, 1, 2, 3, 4, 5]"
  by (simp add: upt_rec)

lemma hexagon_100:
  "generateHexagonVertices 300 300 100 0 =
    [\<lparr>x = 400, y = 300\<rparr>, \<lparr>x = 350, y = 300 + 50 * sqrt 3\<rparr>,
     \<lparr>x = 250, y = 300 + 50 * sqrt 3\<rparr>, \<lparr>x = 200, y = 300\<rparr>,
     \<lparr>x = 250, y = 300 - 50 * sqrt 3\<rparr>, \<lparr>x = 350, y = 300 - 50 * sqrt 3\<rparr>]"
  unfolding generateHexagonVertices_def upt6 Let_def
  using cos_60 sin_60 cos_120 sin_120 cos_240 sin_240 cos_300 sin_300
  by (simp add: field_simps)

lemma hexagonEdges_100:
  "hexagonEdges \<lparr>x = 300, y = 300\<rparr> 100 0 =
    [\<lparr>start = \<lparr>x = 400, y = 300\<rparr>, endp = \<lparr>x = 350, y = 300 + 50 * sqrt 3\<rparr>\<rparr>,
     \<lparr>start = \<lparr>x = 350, y = 300 + 50 * sqrt 3\<rparr>, endp = \<lparr>x = 250, y = 300 + 50 * sqrt 3\<rparr>\<rparr>,
     \<lparr>start = \<lparr>x = 250, y = 300 + 50 * sqrt 3\<rparr>, endp = \<lparr>x = 200, y = 300\<rparr>\<rparr>,
     \<lparr>start = \<lparr>x = 200, y = 300\<rparr>, endp = \<lparr>x = 250, y = 300 - 50 * sqrt 3\<rparr>\<rparr>,
     \<lparr>start = \<lparr>x = 250, y = 300 - 50 * sqrt 3\<rparr>, endp = \<lparr>x = 350, y = 300 - 50 * sqrt 3\<rparr>\<rparr>,
     \<lparr>start = \<lparr>x = 350, y = 300 - 50 * sqrt 3\<rparr>, endp = \<lparr>x = 400, y = 300\<rparr>\<rparr>]"
  by (simp add: hexagonEdges_def hexagon_100 getHexagonEdges_def upt6)

text \<open>The ray casting test puts the point \<open>(550, 300)\<close> outside this hexagon.\<close>

lemma outside_100:
  "isPointInsideHexagon \<lparr>x = 550, y = 300\<rparr> \<lparr>x = 300, y = 300\<rparr> 100 0 = False"
  by (simp add: isPointInsideHexagon_def hexagon_100 Let_def upt6 rayCastStep_def)

lemma sqrt3_bounds: "17 / 10 \<le> sqrt 3" "sqrt 3 \<le> 44 / 25"
proof -
  show "17 / 10 \<le> sqrt 3" by (rule real_le_rsqrt) (simp add: power2_eq_square)
  show "sqrt 3 \<le> 44 / 25" by (rule real_le_lsqrt) (simp_all add: power2_eq_square)
qed

lemma near_top_edge:
  "edgeDistance \<lparr>x = 300, y = 380\<rparr>
     \<lparr>start = \<lparr>x = 350, y = 300 + 50 * sqrt 3\<rparr>, endp = \<lparr>x = 250, y = 300 + 50 * sqrt 3\<rparr>\<rparr>
   = 50 * sqrt 3 - 80"
proof -
  have "edgeDistance \<lparr>x = 300, y = 380\<rparr>
     \<lparr>start = \<lparr>x = 350, y = 300 + 50 * sqrt 3\<rparr>, endp = \<lparr>x = 250, y = 300 + 50 * sqrt 3\<rparr>\<rparr>
     = sqrt ((80 - 50 * sqrt 3) * (80 - 50 * sqrt 3))"
    by (simp add: edgeDistance_def pointToLineSegmentDistance_def Let_def)
  also have "\<dots> = \<bar>80 - 50 * sqrt 3\<bar>" by simp
  also have "\<dots> = 50 * sqrt 3 - 80" using sqrt3_bounds(1) by simp
  finally show ?thesis .
qed

text \<open>
  A ball of radius 8 at \<open>(300, 380)\<close> is within reach of the upper edge, so the least
  distance is at most 8 and a collision is reported.
\<close>

theorem checkHexagonCollision_min_witness:
  "hasCollision (checkHexagonCollision \<lparr>x = 300, y = 380\<rparr> 8 \<lparr>x = 300, y = 300\<rparr> 100 0) = True"
proof -
  define ds where
    "ds = map (edgeDistance \<lparr>x = 300, y = 380\<rparr>) (hexagonEdges \<lparr>x = 300, y = 300\<rparr> 100 0)"
  have "ds ! 1 = 50 * sqrt 3 - 80"
    by (simp add: ds_def hexagonEdges_100 near_top_edge)
  moreover have "ds ! 1 \<in> set ds" by (simp add: ds_def length_hexagonEdges)
  then have "Min (set ds) \<le> ds ! 1" by simp
  ultimately have "Min (set ds) \<le> 8" using sqrt3_bounds(2) by simp
  then show ?thesis
    using checkHexagonCollision_min[of "\<lparr>x = 300, y = 300\<rparr>" 100 0 "\<lparr>x = 300, y = 380\<rparr>" 8]
    by (simp add: Let_def ds_def)
qed

section \<open>Collision detection does not test containment\<close>

lemma magnitude_ge_x: "x v \<le> Vector_magnitude v"
proof -
  have "x v \<le> sqrt ((x v)\<^sup>2 + (y v)\<^sup>2)" by (rule real_sqrt_sum_squares_ge1)
  then show ?thesis by (simp add: Vector_magnitude_def power2_eq_square)
qed

lemma convex_le_max:
  fixes a b s :: real
  assumes "0 \<le> s" "s \<le> 1"
  shows "a + (b - a) * s \<le> max a b"
proof (cases "a \<le> b")
  case True
  then have "(b - a) * s \<le> (b - a) * 1" using assms by (intro mult_left_mono) simp_all
  then show ?thesis using True by simp
next
  case False
  then have "(b - a) * s \<le> 0" using assms by (simp add: mult_nonpos_nonneg)
  then show ?thesis using False by simp
qed

text \<open>A point to the right of both end points is at least that far from the segment.\<close>

lemma ptls_ge_x_gap: "x p - max (x a) (x b) \<le> pointToLineSegmentDistance p a b"
proof (cases "a = b")
  case True
  have "x (Vector_subtract p a) \<le> Vector_magnitude (Vector_subtract p a)"
    by (rule magnitude_ge_x)
  then show ?thesis using True by (simp add: ptls_degenerate Vector_subtract_def)
next
  case False
  define s where "s = max 0 (min 1 (projectionParameter p a b))"
  have s: "0 \<le> s" "s \<le> 1" by (simp_all add: s_def)
  have "x (Vector_subtract p (segmentPoint a b s))
          \<le> Vector_magnitude (Vector_subtract p (segmentPoint a b s))"
    by (rule magnitude_ge_x)
  moreover have "x (segmentPoint a b s) \<le> max (x a) (x b)"
    using convex_le_max[OF s, of "x a" "x b"]
    by (simp add: segmentPoint_def Vector_add_def Vector_multiply_def Vector_subtract_def)
  ultimately show ?thesis
    using ptls_closest[OF False, of p]
    by (simp add: closestPointOnSegment_def s_def[symmetric] Vector_subtract_def)
qed

lemma vertex_x_le:
  assumes "v \<in> set (generateHexagonVertices cx cy R rot)"
  shows "x v \<le> cx + \<bar>R\<bar>"
proof -
  have "R * cos a \<le> \<bar>R\<bar>" for a
  proof -
    have "\<bar>R * cos a\<bar> \<le> \<bar>R\<bar> * 1" unfolding abs_mult by (intro mult_left_mono) simp_all
    then show ?thesis by simp
  qed
  with assms show ?thesis
    by (auto simp: generateHexagonVertices_def Let_def)
qed

lemma edge_ends_are_vertices:
  assumes "e \<in> set (hexagonEdges c R rot)"
  shows "start e \<in> set (generateHexagonVertices (x c) (y c) R rot)
       \<and> endp e \<in> set (generateHexagonVertices (x c) (y c) R rot)"
proof -
  from assms obtain k where k: "k < 6" and e: "e = hexagonEdges c R rot ! k"
    by (auto simp: in_set_conv_nth length_hexagonEdges)
  have "k < length (generateHexagonVertices (x c) (y c) R rot)"
       "(k + 1) mod 6 < length (generateHexagonVertices (x c) (y c) R rot)"
    using k by (simp_all add: length_generateHexagonVertices)
  then show ?thesis
    unfolding e nth_hexagonEdges[OF k] by (simp del: One_nat_def)
qed

lemma no_collision_if_all_far:
  assumes "\<forall>e\<in>set (hexagonEdges c R rot). r < edgeDistance p e"
  shows "hasCollision (checkHexagonCollision p r c R rot) = False"
proof -
  from checkHexagonCollision_first_min[of p r c R rot]
  obtain k where k: "k < 6"
    and res: "hasCollision (checkHexagonCollision p r c R rot)
               = (edgeDistance p (hexagonEdges c R rot ! k) \<le> r)"
    by force
  have "hexagonEdges c R rot ! k \<in> set (hexagonEdges c R rot)"
    using k by (simp add: length_hexagonEdges)
  with assms have "r < edgeDistance p (hexagonEdges c R rot ! k)" by blast
  with res show ?thesis by simp
qed

text \<open>
  Every position further to the right of the centre than the hexagon radius plus the ball
  radius is more than the ball radius away from all six edges.
\<close>

lemma far_right_edges:
  assumes "x c + \<bar>R\<bar> + r < x p"
  shows "\<forall>e\<in>set (hexagonEdges c R rot). r < edgeDistance p e"
proof
  fix e assume e: "e \<in> set (hexagonEdges c R rot)"
  from edge_ends_are_vertices[OF e]
  have "x (start e) \<le> x c + \<bar>R\<bar>" "x (endp e) \<le> x c + \<bar>R\<bar>"
    using vertex_x_le by blast+
  then have "r < x p - max (x (start e)) (x (endp e))" using assms by simp
  also have "\<dots> \<le> edgeDistance p e" unfolding edgeDistance_def by (rule ptls_ge_x_gap)
  finally show "r < edgeDistance p e" .
qed

text \<open>
  Claim C7: \<^verbatim>\<open>checkHexagonCollision\<close> decides \<open>hasCollision\<close> from the distances to
  the six edges alone: whenever each of the six distances exceeds the ball radius it
  returns \<open>hasCollision = false\<close>, whether the position is inside the hexagon or not.
  The instance after the theorem is a position strictly outside the hexagon
  (\<^verbatim>\<open>isPointInsideHexagon\<close> is false there) for which no collision is reported.
\<close>

theorem checkHexagonCollision_ignores_containment:
  "(\<forall>e\<in>set (hexagonEdges hexagonCenter hexagonRadius rotation).
       ballRadius < edgeDistance ballPosition e)
   \<Longrightarrow> hasCollision (checkHexagonCollision ballPosition ballRadius hexagonCenter
                       hexagonRadius rotation) = False"
  by (rule no_collision_if_all_far)

theorem checkHexagonCollision_ignores_containment_witness:
  "isPointInsideHexagon \<lparr>x = 550, y = 300\<rparr> \<lparr>x = 300, y = 300\<rparr> 100 0 = False
   \<and> hasCollision (checkHexagonCollision \<lparr>x = 550, y = 300\<rparr> 8 \<lparr>x = 300, y = 300\<rparr> 100 0)
       = False"
proof -
  have "\<forall>e\<in>set (hexagonEdges \<lparr>x = 300, y = 300\<rparr> 100 0).
          8 < edgeDistance \<lparr>x = 550, y = 300\<rparr> e"
    by (rule far_right_edges) simp
  from checkHexagonCollision_ignores_containment[OF this] outside_100
  show ?thesis by simp
qed

section \<open>Constraining the ball to the hexagon\<close>

lemma magnitude_zero_iff: "Vector_magnitude (Vector_subtract a b) = 0 \<longleftrightarrow> a = b"
  by (cases a, cases b)
    (auto simp: Vector_magnitude_def Vector_subtract_def real_sqrt_eq_zero_cancel_iff
       sum_squares_zero add_nonneg_nonneg)

text \<open>
  What \<^verbatim>\<open>constrainBallInsideHexagon\<close> does when a collision is reported and the ball
  is not at the centre: the result lies on the line from the centre through the ball, at
  the signed distance \<open>hexagonRadius - ballRadius - 10\<close> from the centre.
\<close>

lemma constrain_collision_branch:
  assumes "hasCollision (checkHexagonCollision p r c R rot)" "p \<noteq> c"
  shows "constrainBallInsideHexagon rand1 rand2 p r c R rot
           = Vector_add c (Vector_multiply (Vector_subtract p c)
                 ((R - r - 10) / Vector_magnitude (Vector_subtract p c)))"
    and "Vector_magnitude (Vector_subtract (constrainBallInsideHexagon rand1 rand2 p r c R rot) c)
           = \<bar>R - r - 10\<bar>"
proof -
  define m where "m = Vector_magnitude (Vector_subtract c p)"
  have m: "m \<noteq> 0" using assms(2) magnitude_zero_iff[of c p] by (auto simp: m_def)
  have sym: "Vector_magnitude (Vector_subtract p c) = m"
  proof -
    have "Vector_subtract p c = Vector_multiply (Vector_subtract c p) (-1)"
      by (simp add: Vector_subtract_def Vector_multiply_def)
    then show ?thesis by (simp add: magnitude_multiply m_def)
  qed
  have step: "constrainBallInsideHexagon rand1 rand2 p r c R rot
      = Vector_add c (Vector_multiply (Vector_normalize (Vector_subtract c p)) (- (R - r - 10)))"
    using assms(1) m by (simp add: constrainBallInsideHexagon_def Let_def m_def)
  have norm: "Vector_normalize (Vector_subtract c p)
                = \<lparr>x = (x c - x p) / m, y = (y c - y p) / m\<rparr>"
    unfolding Vector_normalize_def Let_def m_def[symmetric]
    using m by (simp add: Vector_subtract_def)
  show eq: "constrainBallInsideHexagon rand1 rand2 p r c R rot
           = Vector_add c (Vector_multiply (Vector_subtract p c)
                 ((R - r - 10) / Vector_magnitude (Vector_subtract p c)))"
    unfolding step norm sym
    using m by (simp add: Vector_add_def Vector_multiply_def Vector_subtract_def field_simps)
  have "Vector_subtract (Vector_add c (Vector_multiply (Vector_subtract p c) k)) c
          = Vector_multiply (Vector_subtract p c) k" for k
    by (simp add: Vector_subtract_def Vector_add_def Vector_multiply_def)
  then show "Vector_magnitude
               (Vector_subtract (constrainBallInsideHexagon rand1 rand2 p r c R rot) c)
           = \<bar>R - r - 10\<bar>"
    using m magnitude_nonneg[of "Vector_subtract c p"]
    by (simp add: eq magnitude_multiply sym m_def[symmetric])
qed

text \<open>
  Claim C6 says that every point violating containment, in particular every point outside
  the hexagon, is moved to the distance \<open>hexagonRadius - ballRadius - 10\<close> from the
  centre. The code departs from this: it moves the ball only when
  \<^verbatim>\<open>checkHexagonCollision\<close> reports a collision. With the hexagon of radius 100
  around \<open>(300, 300)\<close> and a ball of radius 8 at \<open>(550, 300)\<close>, which is outside the
  hexagon and 150 away from its nearest edge, \<^verbatim>\<open>constrainBallInsideHexagon\<close> returns
  the position \<open>(550, 300)\<close> as it is, where the claim asks for the point
  \<open>(382, 300)\<close> at distance 82 from the centre.
\<close>

theorem constrainBallInsideHexagon_far_outside:
  "isPointInsideHexagon \<lparr>x = 550, y = 300\<rparr> \<lparr>x = 300, y = 300\<rparr> 100 0 = False
   \<and> constrainBallInsideHexagon rand1 rand2 \<lparr>x = 550, y = 300\<rparr> 8 \<lparr>x = 300, y = 300\<rparr> 100 0
       = \<lparr>x = 550, y = 300\<rparr>"
proof -
  have "\<forall>e\<in>set (hexagonEdges \<lparr>x = 300, y = 300\<rparr> 100 0).
          8 < edgeDistance \<lparr>x = 550, y = 300\<rparr> e"
    by (rule far_right_edges) simp
  then have "hasCollision
               (checkHexagonCollision \<lparr>x = 550, y = 300\<rparr> 8 \<lparr>x = 300, y = 300\<rparr> 100 0) = False"
    by (rule no_collision_if_all_far)
  then show ?thesis using outside_100 by (simp add: constrainBallInsideHexagon_def Let_def)
qed

section \<open>Non-penetration after the position correction\<close>

lemma sqrt_10000: "sqrt 10000 = 100"
  by (rule real_sqrt_unique) simp_all

lemma sqrt_36: "sqrt 36 = 6"
  by (rule real_sqrt_unique) simp_all

lemma sqrt_25: "sqrt 25 = 5"
  by (rule real_sqrt_unique) simp_all

lemma sqrt_40_less_8: "sqrt 40 < 8"
  by (rule real_less_lsqrt) simp_all

text \<open>
  Claim C1 as it is stated, for every wall and every distance at most the radius, does not
  hold. A ball of radius 8 at \<open>(106, 0)\<close> is at distance 6 from the wall from
  \<open>(0, 0)\<close> to \<open>(100, 0)\<close>, its nearest point being the end \<open>(100, 0)\<close>. The
  correction moves it by 2 along the wall normal \<open>(0, 1)\<close> to \<open>(106, 2)\<close>, which is
  at distance \<open>sqrt 40\<close>, less than 8, from the wall.
\<close>

theorem handleWallCollision_penetration_counterexample:
  "pointToLineSegmentDistance \<lparr>x = 106, y = 0\<rparr> \<lparr>x = 0, y = 0\<rparr> \<lparr>x = 100, y = 0\<rparr> = 6
   \<and> position (handleWallCollision
         \<lparr>position = \<lparr>x = 106, y = 0\<rparr>, velocity = \<lparr>x = 0, y = 0\<rparr>, radius = 8\<rparr>
         \<lparr>x = 0, y = 0\<rparr> \<lparr>x = 100, y = 0\<rparr> 6) = \<lparr>x = 106, y = 2\<rparr>
   \<and> \<not> (8 \<le> pointToLineSegmentDistance
         (position (handleWallCollision
            \<lparr>position = \<lparr>x = 106, y = 0\<rparr>, velocity = \<lparr>x = 0, y = 0\<rparr>, radius = 8\<rparr>
            \<lparr>x = 0, y = 0\<rparr> \<lparr>x = 100, y = 0\<rparr> 6))
         \<lparr>x = 0, y = 0\<rparr> \<lparr>x = 100, y = 0\<rparr>)"
proof -
  have d: "pointToLineSegmentDistance \<lparr>x = 106, y = 0\<rparr> \<lparr>x = 0, y = 0\<rparr> \<lparr>x = 100, y = 0\<rparr> = 6"
    by (simp add: pointToLineSegmentDistance_def Let_def sqrt_36)
  have n: "orientedWallNormal
         \<lparr>position = \<lparr>x = 106, y = 0\<rparr>, velocity = \<lparr>x = 0, y = 0\<rparr>, radius = 8\<rparr>
         \<lparr>x = 0, y = 0\<rparr> \<lparr>x = 100, y = 0\<rparr> = \<lparr>x = 0, y = 1\<rparr>"
    by (simp add: orientedWallNormal_def Let_def Vector_subtract_def Vector_normalize_def
        Vector_magnitude_def Vector_multiply_def Vector_add_def Vector_dot_def sqrt_10000)
  have p: "position (handleWallCollision
         \<lparr>position = \<lparr>x = 106, y = 0\<rparr>, velocity = \<lparr>x = 0, y = 0\<rparr>, radius = 8\<rparr>
         \<lparr>x = 0, y = 0\<rparr> \<lparr>x = 100, y = 0\<rparr> 6) = \<lparr>x = 106, y = 2\<rparr>"
    by (simp add: handleWallCollision_def Let_def n Vector_add_def Vector_multiply_def)
  have "pointToLineSegmentDistance \<lparr>x = 106, y = 2\<rparr> \<lparr>x = 0, y = 0\<rparr> \<lparr>x = 100, y = 0\<rparr> = sqrt 40"
    by (simp add: pointToLineSegmentDistance_def Let_def)
  then show ?thesis using d p sqrt_40_less_8 by simp
qed

text \<open>
  Two more inputs the correction does not repair: a wall of zero length, whose normal is
  \<open>(0, 0)\<close>, and a distance argument larger than the real distance.
\<close>

lemma degenerate_wall_not_corrected:
  "pointToLineSegmentDistance \<lparr>x = 3, y = 4\<rparr> \<lparr>x = 0, y = 0\<rparr> \<lparr>x = 0, y = 0\<rparr> = 5
   \<and> pointToLineSegmentDistance
        (position (handleWallCollision
           \<lparr>position = \<lparr>x = 3, y = 4\<rparr>, velocity = \<lparr>x = 0, y = 0\<rparr>, radius = 8\<rparr>
           \<lparr>x = 0, y = 0\<rparr> \<lparr>x = 0, y = 0\<rparr> 5))
        \<lparr>x = 0, y = 0\<rparr> \<lparr>x = 0, y = 0\<rparr> = 5"
  by (simp add: handleWallCollision_def orientedWallNormal_def Let_def Vector_subtract_def
      Vector_normalize_def Vector_magnitude_def Vector_multiply_def Vector_add_def Vector_dot_def
      pointToLineSegmentDistance_def sqrt_25)

lemma overstated_distance_not_corrected:
  "pointToLineSegmentDistance \<lparr>x = 50, y = 5\<rparr> \<lparr>x = 0, y = 0\<rparr> \<lparr>x = 100, y = 0\<rparr> = 5
   \<and> pointToLineSegmentDistance
        (position (handleWallCollision
           \<lparr>position = \<lparr>x = 50, y = 5\<rparr>, velocity = \<lparr>x = 0, y = 0\<rparr>, radius = 8\<rparr>
           \<lparr>x = 0, y = 0\<rparr> \<lparr>x = 100, y = 0\<rparr> 7))
        \<lparr>x = 0, y = 0\<rparr> \<lparr>x = 100, y = 0\<rparr> = 6"
  by (simp add: handleWallCollision_def orientedWallNormal_def Let_def Vector_subtract_def
      Vector_normalize_def Vector_magnitude_def Vector_multiply_def Vector_add_def Vector_dot_def
      pointToLineSegmentDistance_def sqrt_25 sqrt_36 sqrt_10000)

text \<open>The oriented normal of a wall of positive length is a unit vector across the wall.\<close>

lemma orientedWallNormal_cases:
  "orientedWallNormal ball a b = Vector_normalize \<lparr>x = - (y b - y a), y = x b - x a\<rparr>
   \<or> orientedWallNormal ball a b
       = \<lparr>x = - x (Vector_normalize \<lparr>x = - (y b - y a), y = x b - x a\<rparr>),
          y = - y (Vector_normalize \<lparr>x = - (y b - y a), y = x b - x a\<rparr>)\<rparr>"
  by (simp add: orientedWallNormal_def Let_def Vector_subtract_def)

lemma wall_normal_raw:
  fixes a b :: Vector2D
  assumes "a \<noteq> b"
  defines "n0 \<equiv> Vector_normalize \<lparr>x = - (y b - y a), y = x b - x a\<rparr>"
  shows "x n0 * x n0 + y n0 * y n0 = 1" and "x n0 * (x b - x a) + y n0 * (y b - y a) = 0"
proof -
  define dx where "dx = x b - x a"
  define dy where "dy = y b - y a"
  define m where "m = Vector_magnitude \<lparr>x = - dy, y = dx\<rparr>"
  have "dx * dx + dy * dy \<noteq> 0" using assms(1) lenSq_zero_iff[of b a] by (simp add: dx_def dy_def)
  then have "dy * dy + dx * dx \<noteq> 0" by (simp add: add.commute)
  then have m: "m \<noteq> 0" by (simp add: m_def Vector_magnitude_def)
  have n0: "n0 = \<lparr>x = - dy / m, y = dx / m\<rparr>"
    using m by (simp add: n0_def Vector_normalize_def Let_def dx_def[symmetric] dy_def[symmetric] m_def[symmetric])
  from normalize_unit_or_zero[of "\<lparr>x = - dy, y = dx\<rparr>"]
  show "x n0 * x n0 + y n0 * y n0 = 1"
  proof
    assume "x (Vector_normalize \<lparr>x = - dy, y = dx\<rparr>) * x (Vector_normalize \<lparr>x = - dy, y = dx\<rparr>) +
      y (Vector_normalize \<lparr>x = - dy, y = dx\<rparr>) * y (Vector_normalize \<lparr>x = - dy, y = dx\<rparr>) = 1"
    then show ?thesis by (simp add: n0_def dx_def dy_def)
  next
    assume z: "Vector_normalize \<lparr>x = - dy, y = dx\<rparr> = \<lparr>x = 0, y = 0\<rparr>"
    have "n0 = \<lparr>x = 0, y = 0\<rparr>" using z by (simp add: n0_def dx_def dy_def)
    with n0 m have "dx = 0 \<and> dy = 0" by simp
    with \<open>dx * dx + dy * dy \<noteq> 0\<close> show ?thesis by simp
  qed
  show "x n0 * (x b - x a) + y n0 * (y b - y a) = 0"
    unfolding n0 dx_def[symmetric] dy_def[symmetric] by simp
qed

lemma orientedWallNormal_unit_perp:
  assumes "a \<noteq> b"
  shows "x (orientedWallNormal ball a b) * x (orientedWallNormal ball a b)
         + y (orientedWallNormal ball a b) * y (orientedWallNormal ball a b) = 1"
    and "x (orientedWallNormal ball a b) * (x b - x a)
         + y (orientedWallNormal ball a b) * (y b - y a) = 0"
  using orientedWallNormal_cases[of ball a b] wall_normal_raw[OF assms]
  by auto

lemma orientedWallNormal_dot_nonneg:
  "0 \<le> Vector_dot (orientedWallNormal ball a b)
          (Vector_subtract (position ball) (Vector_multiply (Vector_add a b) (1 / 2)))"
  unfolding orientedWallNormal_def Let_def
  by (simp add: Vector_dot_def algebra_simps)

lemma perp_component_zero:
  fixes wx wy nx ny dx dy :: real
  assumes Wd: "wx * dx + wy * dy = 0" and nd: "nx * dx + ny * dy = 0"
    and d: "dx * dx + dy * dy \<noteq> 0"
  shows "wx * ny - wy * nx = 0"
proof -
  have a: "(wx * ny - wy * nx) * dx = ny * (wx * dx + wy * dy) - wy * (nx * dx + ny * dy)"
    by (simp add: algebra_simps)
  have b: "(wx * ny - wy * nx) * dy = wx * (nx * dx + ny * dy) - nx * (wx * dx + wy * dy)"
    by (simp add: algebra_simps)
  from a b Wd nd have "(wx * ny - wy * nx) * dx = 0" "(wx * ny - wy * nx) * dy = 0" by simp_all
  moreover from d have "dx \<noteq> 0 \<or> dy \<noteq> 0" by auto
  ultimately show ?thesis by auto
qed

lemma foot_distance:
  fixes ux uy nx ny dx dy t L :: real
  assumes N1: "nx * nx + ny * ny = 1" and N2: "nx * dx + ny * dy = 0"
    and L: "L = dx * dx + dy * dy" and Lnz: "L \<noteq> 0" and t: "t = (ux * dx + uy * dy) / L"
  shows "(ux - dx * t) * (ux - dx * t) + (uy - dy * t) * (uy - dy * t)
         = (nx * ux + ny * uy) * (nx * ux + ny * uy)"
    and "(ux - dx * t) * nx + (uy - dy * t) * ny = nx * ux + ny * uy"
proof -
  define wx where "wx = ux - dx * t"
  define wy where "wy = uy - dy * t"
  have tL: "t * L = ux * dx + uy * dy" using t Lnz by simp
  have "wx * dx + wy * dy = (ux * dx + uy * dy) - t * (dx * dx + dy * dy)"
    by (simp add: wx_def wy_def algebra_simps)
  also have "\<dots> = 0" using tL L by simp
  finally have Wd: "wx * dx + wy * dy = 0" .
  have cross: "wx * ny - wy * nx = 0"
    using perp_component_zero[OF Wd N2] Lnz L by simp
  have Wn: "wx * nx + wy * ny = (nx * ux + ny * uy) - t * (nx * dx + ny * dy)"
    by (simp add: wx_def wy_def algebra_simps)
  then have Wn': "wx * nx + wy * ny = nx * ux + ny * uy" using N2 by simp
  have "wx * wx + wy * wy = (wx * wx + wy * wy) * (nx * nx + ny * ny)" using N1 by simp
  also have "\<dots> = (wx * nx + wy * ny) * (wx * nx + wy * ny) + (wx * ny - wy * nx) * (wx * ny - wy * nx)"
    by (simp add: algebra_simps)
  also have "\<dots> = (nx * ux + ny * uy) * (nx * ux + ny * uy)" using cross Wn' by simp
  finally show "(ux - dx * t) * (ux - dx * t) + (uy - dy * t) * (uy - dy * t)
         = (nx * ux + ny * uy) * (nx * ux + ny * uy)"
    by (simp add: wx_def wy_def)
  show "(ux - dx * t) * nx + (uy - dy * t) * ny = nx * ux + ny * uy"
    using Wn' by (simp add: wx_def wy_def)
qed

lemma pushed_foot_distance:
  fixes ux uy nx ny dx dy t L k :: real
  assumes N1: "nx * nx + ny * ny = 1" and N2: "nx * dx + ny * dy = 0"
    and L: "L = dx * dx + dy * dy" and Lnz: "L \<noteq> 0" and t: "t = (ux * dx + uy * dy) / L"
  shows "(ux + nx * k - dx * t) * (ux + nx * k - dx * t) + (uy + ny * k - dy * t) * (uy + ny * k - dy * t)
         = (nx * ux + ny * uy + k) * (nx * ux + ny * uy + k)"
proof -
  define wx where "wx = ux - dx * t"
  define wy where "wy = uy - dy * t"
  define h where "h = nx * ux + ny * uy"
  have W2: "wx * wx + wy * wy = h * h" and Wn: "wx * nx + wy * ny = h"
    using foot_distance[OF N1 N2 L Lnz t] by (simp_all add: wx_def wy_def h_def)
  have "(wx + nx * k) * (wx + nx * k) + (wy + ny * k) * (wy + ny * k)
        = (wx * wx + wy * wy) + 2 * k * (wx * nx + wy * ny) + k * k * (nx * nx + ny * ny)"
    by (simp add: algebra_simps)
  also have "\<dots> = (h + k) * (h + k)" unfolding W2 Wn N1 by (simp add: algebra_simps)
  finally show ?thesis by (simp add: wx_def wy_def h_def algebra_simps)
qed


lemma handleWallCollision_position:
  "wallDistance \<le> radius ball \<Longrightarrow>
   position (handleWallCollision ball a b wallDistance)
     = Vector_add (position ball)
         (Vector_multiply (orientedWallNormal ball a b) (radius ball - wallDistance))"
  by (simp add: handleWallCollision_def Let_def)

text \<open>
  Claim C1, amended: let the wall have positive length, let the foot of the perpendicular
  from the ball's position fall within the wall (projection parameter in \<open>[0, 1]\<close>), and
  let the distance passed in be at most the ball's radius and at most the real
  point-to-segment distance from the ball's position to the wall. Then the position
  returned by \<^verbatim>\<open>handleWallCollision\<close> is at point-to-segment distance at least the
  radius from the same wall.
\<close>

theorem handleWallCollision_non_penetration:
  assumes wall: "wStart \<noteq> wEnd"
    and foot: "0 \<le> projectionParameter (position ball) wStart wEnd"
              "projectionParameter (position ball) wStart wEnd \<le> 1"
    and dist: "wallDistance \<le> pointToLineSegmentDistance (position ball) wStart wEnd"
    and hit: "wallDistance \<le> radius ball"
  shows "radius ball
           \<le> pointToLineSegmentDistance
                (position (handleWallCollision ball wStart wEnd wallDistance)) wStart wEnd"
proof -
  define p where "p = position ball"
  define n where "n = orientedWallNormal ball wStart wEnd"
  define k where "k = radius ball - wallDistance"
  define dx where "dx = x wEnd - x wStart"
  define dy where "dy = y wEnd - y wStart"
  define ux where "ux = x p - x wStart"
  define uy where "uy = y p - y wStart"
  define L where "L = dx * dx + dy * dy"
  define t where "t = (ux * dx + uy * dy) / L"
  define h where "h = x n * ux + y n * uy"
  define q where "q = Vector_add p (Vector_multiply n k)"
  have Lnz: "L \<noteq> 0" using wall lenSq_zero_iff[of wEnd wStart] by (simp add: L_def dx_def dy_def)
  have N1: "x n * x n + y n * y n = 1" and N2: "x n * dx + y n * dy = 0"
    using orientedWallNormal_unit_perp[OF wall, of ball] by (simp_all add: n_def dx_def dy_def)
  have pp: "projectionParameter p wStart wEnd = t"
    by (simp add: projectionParameter_def Vector_dot_def Vector_subtract_def t_def L_def
        dx_def dy_def ux_def uy_def)
  have t01: "0 \<le> t" "t \<le> 1" using foot pp by (simp_all add: p_def)
  have clamp: "max 0 (min 1 t) = t" using t01 by simp
  \<comment> \<open>the ball is on the side the normal points to\<close>
  have "0 \<le> Vector_dot n (Vector_subtract p (Vector_multiply (Vector_add wStart wEnd) (1 / 2)))"
    unfolding n_def p_def by (rule orientedWallNormal_dot_nonneg)
  also have "Vector_dot n (Vector_subtract p (Vector_multiply (Vector_add wStart wEnd) (1 / 2)))
              = h - (x n * dx + y n * dy) / 2"
    by (simp add: Vector_dot_def Vector_subtract_def Vector_multiply_def Vector_add_def
        h_def ux_def uy_def dx_def dy_def field_simps)
  finally have h0: "0 \<le> h" using N2 by simp
  \<comment> \<open>the distance before the correction\<close>
  have "pointToLineSegmentDistance p wStart wEnd
          = sqrt ((ux - dx * t) * (ux - dx * t) + (uy - dy * t) * (uy - dy * t))"
    using ptls_closest[OF wall, of p]
    by (simp add: closestPointOnSegment_def pp clamp segmentPoint_def Vector_magnitude_def
        Vector_subtract_def Vector_add_def Vector_multiply_def ux_def uy_def dx_def dy_def
        algebra_simps)
  also have "\<dots> = sqrt (h * h)"
    using foot_distance(1)[OF N1 N2 L_def Lnz t_def] by (simp add: h_def)
  also have "\<dots> = h" using h0 by simp
  finally have old: "pointToLineSegmentDistance p wStart wEnd = h" .
  \<comment> \<open>the correction moves the ball along the normal, so the foot stays\<close>
  have qx: "x q - x wStart = ux + x n * k" and qy: "y q - y wStart = uy + y n * k"
    by (simp_all add: q_def Vector_add_def Vector_multiply_def ux_def uy_def)
  have "(ux + x n * k) * dx + (uy + y n * k) * dy = (ux * dx + uy * dy) + k * (x n * dx + y n * dy)"
    by (simp add: algebra_simps)
  then have "(ux + x n * k) * dx + (uy + y n * k) * dy = ux * dx + uy * dy" using N2 by simp
  then have ppq: "projectionParameter q wStart wEnd = t"
    unfolding projectionParameter_def Vector_dot_def Vector_subtract_def
    by (simp add: qx qy dx_def[symmetric] dy_def[symmetric] t_def L_def)
  have "pointToLineSegmentDistance q wStart wEnd
          = sqrt ((ux + x n * k - dx * t) * (ux + x n * k - dx * t)
                + (uy + y n * k - dy * t) * (uy + y n * k - dy * t))"
  proof -
    have e1: "x q - (x wStart + dx * t) = ux + x n * k - dx * t"
      and e2: "y q - (y wStart + dy * t) = uy + y n * k - dy * t"
      using qx qy by simp_all
    have "pointToLineSegmentDistance q wStart wEnd
            = sqrt ((x q - (x wStart + dx * t)) * (x q - (x wStart + dx * t))
                  + (y q - (y wStart + dy * t)) * (y q - (y wStart + dy * t)))"
      using ptls_closest[OF wall, of q]
      by (simp add: closestPointOnSegment_def ppq clamp segmentPoint_def Vector_magnitude_def
        Vector_subtract_def Vector_add_def Vector_multiply_def dx_def[symmetric] dy_def[symmetric])
    then show ?thesis by (simp only: e1 e2)
  qed
  also have "\<dots> = sqrt ((h + k) * (h + k))"
    using pushed_foot_distance[OF N1 N2 L_def Lnz t_def, of k] by (simp add: h_def)
  also have "\<dots> = \<bar>h + k\<bar>" by simp
  finally have new: "pointToLineSegmentDistance q wStart wEnd = \<bar>h + k\<bar>" .
  have "wallDistance \<le> h" using dist old by (simp add: p_def)
  then have "radius ball \<le> h + k" by (simp add: k_def)
  then have "radius ball \<le> \<bar>h + k\<bar>" by simp
  moreover have "position (handleWallCollision ball wStart wEnd wallDistance) = q"
    using handleWallCollision_position[OF hit] by (simp add: q_def p_def n_def k_def)
  ultimately show ?thesis using new by simp
qed

theorem handleWallCollision_non_penetration_witness:
  "8 \<le> pointToLineSegmentDistance
         (position (handleWallCollision
            \<lparr>position = \<lparr>x = 300, y = 395\<rparr>, velocity = \<lparr>x = 30, y = 40\<rparr>, radius = 8\<rparr>
            \<lparr>x = 0, y = 400\<rparr> \<lparr>x = 600, y = 400\<rparr> 5))
         \<lparr>x = 0, y = 400\<rparr> \<lparr>x = 600, y = 400\<rparr>"
proof -
  have w: "\<lparr>x = 0, y = 400\<rparr> \<noteq> \<lparr>x = 600, y = 400 :: real\<rparr>" by simp
  have pp: "projectionParameter \<lparr>x = 300, y = 395\<rparr> \<lparr>x = 0, y = 400\<rparr> \<lparr>x = 600, y = 400\<rparr> = 1 / 2"
    by (simp add: projectionParameter_def Vector_dot_def Vector_subtract_def)
  have d: "pointToLineSegmentDistance \<lparr>x = 300, y = 395\<rparr> \<lparr>x = 0, y = 400\<rparr> \<lparr>x = 600, y = 400\<rparr> = 5"
    by (simp add: pointToLineSegmentDistance_def Let_def sqrt_25)
  show ?thesis
    using handleWallCollision_non_penetration[of "\<lparr>x = 0, y = 400\<rparr>" "\<lparr>x = 600, y = 400\<rparr>"
        "\<lparr>position = \<lparr>x = 300, y = 395\<rparr>, velocity = \<lparr>x = 30, y = 40\<rparr>, radius = 8\<rparr>" 5]
      w pp d
    by simp
qed

end
